theory Spec2Isabelle
  imports Complex_Main
begin

section \<open>The persistent store of app.py\<close>

text \<open>
  The two SQLite tables of \<^verbatim>\<open>DatabaseManager.init_database\<close> are lists of rows in rowid
  order (an \<^verbatim>\<open>INSERT\<close> appends; a \<^verbatim>\<open>SELECT\<close> without \<^verbatim>\<open>ORDER BY\<close> scans in that order).
  The autoincrement \<^verbatim>\<open>id\<close> and the \<^verbatim>\<open>created_at\<close> default are not read by any operation
  modelled here and are left out of the rows.

  A \<^verbatim>\<open>datetime\<close> is a count of microseconds, a \<^verbatim>\<open>date\<close> a day number; both are plain
  integers, so \<^verbatim>\<open>today - timedelta(days=7)\<close> is a subtraction. A face encoding is the list
  of numbers that \<^verbatim>\<open>json.dumps(face_encoding.tolist())\<close> stores.

  The schema declares \<^verbatim>\<open>FOREIGN KEY (employee_id) REFERENCES employees (employee_id)\<close>, but
  no connection of app.py executes \<^verbatim>\<open>PRAGMA foreign_keys = ON\<close>, and SQLite enforces foreign
  keys only on a connection that does: an \<^verbatim>\<open>INSERT\<close> into \<^verbatim>\<open>attendance\<close> is not checked
  against \<^verbatim>\<open>employees\<close>.
\<close>

type_synonym datetime = int
type_synonym date = int
type_synonym encoding = "real list"

record employee =
  employee_id :: string
  name :: string
  email :: string
  department :: string
  face_encoding :: encoding

record attendance_row =
  a_employee_id :: string
  check_in_time :: "datetime option"
  check_out_time :: "datetime option"
  a_date :: date
  status :: string

record database =
  employees :: "employee list"
  attendance :: "attendance_row list"

text \<open>The dictionaries \<^verbatim>\<open>{'success': ..., 'message': ...}\<close> that the operations return.\<close>

record outcome =
  success :: bool
  message :: string

subsection \<open>\<^verbatim>\<open>DatabaseManager.mark_attendance\<close> (lines 100--121)\<close>

text \<open>
  \<^verbatim>\<open>cursor.fetchone()\<close> of the \<^verbatim>\<open>SELECT ... WHERE employee_id = ? AND date = ?\<close>: the first
  matching row, or \<^verbatim>\<open>None\<close>.
\<close>

definition existing_record :: "database \<Rightarrow> string \<Rightarrow> date \<Rightarrow> attendance_row option" where
  "existing_record db eid today =
     find (\<lambda>r. a_employee_id r = eid \<and> a_date r = today) (attendance db)"

text \<open>\<^verbatim>\<open>UPDATE attendance SET check_out_time = ? WHERE employee_id = ? AND date = ?\<close>.\<close>

definition update_check_out :: "datetime \<Rightarrow> string \<Rightarrow> date \<Rightarrow> attendance_row list \<Rightarrow> attendance_row list" where
  "update_check_out current_time eid today rows =
     map (\<lambda>r. if a_employee_id r = eid \<and> a_date r = today
               then r\<lparr>check_out_time := Some current_time\<rparr> else r) rows"

text \<open>
  \<^verbatim>\<open>INSERT INTO attendance (employee_id, check_in_time, date) VALUES (?, ?, ?)\<close>; the columns
  not named take their defaults (\<^verbatim>\<open>check_out_time\<close> NULL, \<^verbatim>\<open>status\<close> 'present').
\<close>

definition new_attendance_row :: "string \<Rightarrow> datetime \<Rightarrow> date \<Rightarrow> attendance_row" where
  "new_attendance_row eid current_time today =
     \<lparr>a_employee_id = eid, check_in_time = Some current_time, check_out_time = None,
      a_date = today, status = ''present''\<rparr>"

text \<open>
  The operation reads the clock twice: \<^verbatim>\<open>today = datetime.now().date()\<close> and
  \<^verbatim>\<open>current_time = datetime.now()\<close>. Both readings are arguments here. The result is the
  store after the call and the dictionary returned.
\<close>

definition mark_attendance ::
  "database \<Rightarrow> string \<Rightarrow> string \<Rightarrow> date \<Rightarrow> datetime \<Rightarrow> database \<times> outcome" where
  "mark_attendance db eid attendance_type today current_time =
     (case existing_record db eid today of
        Some existing \<Rightarrow>
          if attendance_type = ''check_out'' \<and> check_out_time existing = None
          then (db\<lparr>attendance := update_check_out current_time eid today (attendance db)\<rparr>,
                \<lparr>success = True, message = ''Check-out recorded successfully''\<rparr>)
          else (db, \<lparr>success = False, message = ''Attendance already recorded for today''\<rparr>)
      | None \<Rightarrow>
          if attendance_type = ''check_in''
          then (db\<lparr>attendance := attendance db @ [new_attendance_row eid current_time today]\<rparr>,
                \<lparr>success = True, message = ''Check-in recorded successfully''\<rparr>)
          else (db, \<lparr>success = False, message = ''Must check-in first''\<rparr>))"

text \<open>
  The route \<^verbatim>\<open>/mark_attendance\<close> (lines 427--433): \<^verbatim>\<open>data.get('type', 'check_in')\<close> falls back
  to a check-in when the request body has no \<^verbatim>\<open>type\<close>.
\<close>

definition mark_attendance_route ::
  "database \<Rightarrow> string \<Rightarrow> string option \<Rightarrow> date \<Rightarrow> datetime \<Rightarrow> database \<times> outcome" where
  "mark_attendance_route db eid type_field today current_time =
     mark_attendance db eid (case type_field of None \<Rightarrow> ''check_in'' | Some t \<Rightarrow> t)
       today current_time"

text \<open>
  The ledger state of one (identity, date) key, read off the row that
  \<^verbatim>\<open>mark_attendance\<close> itself consults.
\<close>

datatype ledger_state = NO_RECORD | CHECKED_IN | CHECKED_OUT

definition ledger_state_of :: "database \<Rightarrow> string \<Rightarrow> date \<Rightarrow> ledger_state" where
  "ledger_state_of db eid d =
     (case existing_record db eid d of
        None \<Rightarrow> NO_RECORD
      | Some r \<Rightarrow> if check_out_time r = None then CHECKED_IN else CHECKED_OUT)"

text \<open>
  Referential integrity of a store: every attendance row names an enrolled employee.
\<close>

definition referential_integrity :: "database \<Rightarrow> bool" where
  "referential_integrity db =
     list_all (\<lambda>r. a_employee_id r \<in> set (map employee_id (employees db))) (attendance db)"

subsection \<open>\<^verbatim>\<open>DatabaseManager.get_attendance_summary\<close> (lines 135--163)\<close>










section \<open>The face recognition system\<close>

text \<open>
  The state of \<^verbatim>\<open>FaceRecognitionSystem\<close>: the store behind \<^verbatim>\<open>db_manager\<close> and the three
  parallel lists of the in-memory gallery. The camera handle, \<^verbatim>\<open>is_running\<close> and the lock
  (which no method acquires) are left out.
\<close>

record face_system =
  db_manager :: database
  known_face_encodings :: "encoding list"
  known_face_names :: "string list"
  known_employee_ids :: "string list"

subsection \<open>\<^verbatim>\<open>add_employee\<close>, \<^verbatim>\<open>get_employee_encodings\<close>, \<^verbatim>\<open>load_known_faces\<close>\<close>

text \<open>
  \<^verbatim>\<open>employee_id TEXT UNIQUE NOT NULL\<close>: the \<^verbatim>\<open>INSERT\<close> raises \<^verbatim>\<open>sqlite3.IntegrityError\<close> for an
  id that is present, which \<^verbatim>\<open>add_employee\<close> turns into \<^verbatim>\<open>False\<close>.
\<close>

definition add_employee ::
  "database \<Rightarrow> string \<Rightarrow> string \<Rightarrow> string \<Rightarrow> string \<Rightarrow> encoding \<Rightarrow> database \<times> bool" where
  "add_employee db eid nm mail dept enc =
     (if eid \<in> set (map employee_id (employees db)) then (db, False)
      else (db\<lparr>employees := employees db @
                 [\<lparr>employee_id = eid, name = nm, email = mail, department = dept,
                   face_encoding = enc\<rparr>]\<rparr>, True))"

definition get_employee_encodings :: "database \<Rightarrow> encoding list \<times> string list \<times> string list" where
  "get_employee_encodings db =
     (map face_encoding (employees db), map name (employees db),
      map employee_id (employees db))"

definition load_known_faces :: "face_system \<Rightarrow> face_system" where
  "load_known_faces fs =
     (case get_employee_encodings (db_manager fs) of
        (encodings, names, emp_ids) \<Rightarrow>
          fs\<lparr>known_face_encodings := encodings, known_face_names := names,
             known_employee_ids := emp_ids\<rparr>)"

text \<open>\<^verbatim>\<open>FaceRecognitionSystem.__init__\<close> on a store.\<close>

definition init_face_system :: "database \<Rightarrow> face_system" where
  "init_face_system db =
     load_known_faces \<lparr>db_manager = db, known_face_encodings = [], known_face_names = [],
                       known_employee_ids = []\<rparr>"

subsection \<open>\<^verbatim>\<open>delete_employee\<close> (lines 306--327)\<close>

text \<open>
  Both \<^verbatim>\<open>DELETE\<close> statements run; \<^verbatim>\<open>cursor.rowcount\<close> is the number of employee rows the
  second one removed. The gallery is reloaded only when that number is positive. The result
  carries the JSON body and the HTTP status.
\<close>

definition delete_employee :: "face_system \<Rightarrow> string \<Rightarrow> face_system \<times> outcome \<times> nat" where
  "delete_employee fs eid =
     (let db = db_manager fs;
          db1 = db\<lparr>attendance := filter (\<lambda>r. a_employee_id r \<noteq> eid) (attendance db)\<rparr>;
          rowcount = length (filter (\<lambda>e. employee_id e = eid) (employees db1));
          db2 = db1\<lparr>employees := filter (\<lambda>e. employee_id e \<noteq> eid) (employees db1)\<rparr>;
          fs2 = fs\<lparr>db_manager := db2\<rparr>
      in if 0 < rowcount
         then (load_known_faces fs2,
               \<lparr>success = True, message = ''Employee deleted successfully.''\<rparr>, 200)
         else (fs2, \<lparr>success = False, message = ''Employee not found.''\<rparr>, 404))"

subsection \<open>\<^verbatim>\<open>FaceRecognitionSystem.add_new_employee\<close> (lines 184--218)\<close>

text \<open>
  What the file system and the \<^verbatim>\<open>face_recognition\<close> library answer for one image path:
  \<^verbatim>\<open>os.path.exists\<close>, \<^verbatim>\<open>load_image_file\<close> (the text of the exception raised, or
  \<^verbatim>\<open>image.size\<close>), \<^verbatim>\<open>face_locations\<close> and \<^verbatim>\<open>face_encodings\<close> (the text of the exception raised,
  or the list returned). A location is \<^verbatim>\<open>(top, right, bottom, left)\<close>. The removal of the
  uploaded file after a successful enrollment is an effect on the file system only and is
  not part of the state.
\<close>

type_synonym face_location = "int \<times> int \<times> int \<times> int"

record image_file =
  path_exists :: bool
  load_image_file :: "string + nat"
  image_face_locations :: "string + face_location list"
  image_face_encodings :: "string + encoding list"

definition failure :: "string \<Rightarrow> outcome" where
  "failure msg = \<lparr>success = False, message = msg\<rparr>"

text \<open>The \<^verbatim>\<open>except Exception as e\<close> arm of \<^verbatim>\<open>add_new_employee\<close>.\<close>

definition error_processing :: "string \<Rightarrow> outcome" where
  "error_processing e = failure (''Error processing image: '' @ e)"

definition add_new_employee ::
  "face_system \<Rightarrow> string \<Rightarrow> string \<Rightarrow> string \<Rightarrow> string \<Rightarrow> image_file \<Rightarrow> face_system \<times> outcome" where
  "add_new_employee fs eid nm mail dept img =
     (if \<not> path_exists img then (fs, failure ''Image file not found'')
      else (case load_image_file img of
        Inl e \<Rightarrow> (fs, error_processing e)
      | Inr image_size \<Rightarrow>
          if image_size = 0 then (fs, failure ''Invalid or corrupt image file'')
          else (case image_face_locations img of
            Inl e \<Rightarrow> (fs, error_processing e)
          | Inr face_locations \<Rightarrow>
              if length face_locations = 0
              then (fs, failure
                ''No face detected in the image. Please use a clear front-facing photo'')
              else if 1 < length face_locations
              then (fs, failure
                ''Multiple faces detected. Please use an image with only one face'')
              else (case image_face_encodings img of
                Inl e \<Rightarrow> (fs, error_processing e)
              | Inr face_encodings \<Rightarrow>
                  (case face_encodings of
                     [] \<Rightarrow> (fs, error_processing ''list index out of range'')
                   | face_enc # _ \<Rightarrow>
                      (case add_employee (db_manager fs) eid nm mail dept face_enc of
                         (db', True) \<Rightarrow>
                           (load_known_faces (fs\<lparr>db_manager := db'\<rparr>),
                            \<lparr>success = True, message = ''Employee added successfully''\<rparr>)
                       | (db', False) \<Rightarrow> (fs, failure ''Employee ID already exists'')))))))"

text \<open>
  The first precondition, that the image decodes: the file is there, \<^verbatim>\<open>load_image_file\<close>
  returns, and the image is not empty.
\<close>

definition decodes :: "image_file \<Rightarrow> bool" where
  "decodes img = (path_exists img \<and> (case load_image_file img of Inl e \<Rightarrow> False | Inr n \<Rightarrow> 0 < n))"

subsection \<open>\<^verbatim>\<open>FaceRecognitionSystem.recognize_faces\<close> (lines 220--264)\<close>

text \<open>
  The library's distance between two encodings is the parameter \<open>face_dist\<close> of the model.
  \<^verbatim>\<open>face_recognition.face_distance(known, probe)\<close> returns the distance of the probe to each
  known encoding, in order, and \<^verbatim>\<open>face_recognition.compare_faces(known, probe, tolerance)\<close>
  is \<^verbatim>\<open>list(face_distance(known, probe) <= tolerance)\<close>. Distances and the tolerance are
  real numbers here.
\<close>

definition face_distance :: "(encoding \<Rightarrow> encoding \<Rightarrow> real) \<Rightarrow> encoding list \<Rightarrow> encoding \<Rightarrow> real list" where
  "face_distance face_dist known probe = map (\<lambda>k. face_dist k probe) known"

definition compare_faces ::
  "(encoding \<Rightarrow> encoding \<Rightarrow> real) \<Rightarrow> encoding list \<Rightarrow> encoding \<Rightarrow> real \<Rightarrow> bool list" where
  "compare_faces face_dist known probe tolerance =
     map (\<lambda>d. d \<le> tolerance) (face_distance face_dist known probe)"

text \<open>\<^verbatim>\<open>np.argmin\<close>: the index of the first occurrence of the minimum.\<close>

fun argmin_from :: "nat \<Rightarrow> real \<Rightarrow> nat \<Rightarrow> real list \<Rightarrow> nat" where
  "argmin_from best best_val i [] = best"
| "argmin_from best best_val i (d # ds) =
     (if d < best_val then argmin_from i d (Suc i) ds
      else argmin_from best best_val (Suc i) ds)"

definition np_argmin :: "real list \<Rightarrow> nat" where
  "np_argmin ds = (case ds of [] \<Rightarrow> 0 | d # rest \<Rightarrow> argmin_from 0 d 1 rest)"

definition tolerance :: real where
  "tolerance = 6 / 10"

text \<open>
  The body of the loop over the encodings of one frame: the name and the employee id for one
  probe, or the text of the exception an index out of range would raise.
\<close>

definition match_face ::
  "(encoding \<Rightarrow> encoding \<Rightarrow> real) \<Rightarrow> face_system \<Rightarrow> encoding \<Rightarrow> string + (string \<times> string option)" where
  "match_face face_dist fs face_enc =
     (if known_face_encodings fs = [] then Inr (''Unknown'', None)
      else
        let matches = compare_faces face_dist (known_face_encodings fs) face_enc tolerance;
            face_distances = face_distance face_dist (known_face_encodings fs) face_enc
        in if 0 < length face_distances
           then let best_match_index = np_argmin face_distances
                in if matches ! best_match_index
                   then if best_match_index < length (known_face_names fs)
                           \<and> best_match_index < length (known_employee_ids fs)
                        then Inr (known_face_names fs ! best_match_index,
                                  Some (known_employee_ids fs ! best_match_index))
                        else Inl ''list index out of range''
                   else Inr (''Unknown'', None)
           else Inr (''Unknown'', None))"

fun match_faces ::
  "(encoding \<Rightarrow> encoding \<Rightarrow> real) \<Rightarrow> face_system \<Rightarrow> encoding list
     \<Rightarrow> string + (string \<times> string option) list" where
  "match_faces face_dist fs [] = Inr []"
| "match_faces face_dist fs (face_enc # rest) =
     (case match_face face_dist fs face_enc of
        Inl e \<Rightarrow> Inl e
      | Inr m \<Rightarrow> (case match_faces face_dist fs rest of Inl e \<Rightarrow> Inl e | Inr ms \<Rightarrow> Inr (m # ms)))"

text \<open>
  One camera frame: its height and width, and what \<^verbatim>\<open>face_recognition\<close> answers on the frame
  that is processed (given its width and height): the locations found, and the encodings at
  those locations; \<open>Inl\<close> is the text of an exception raised on the way
  (\<^verbatim>\<open>cv2.resize\<close>, \<^verbatim>\<open>cv2.cvtColor\<close> or the library).
\<close>

record frame =
  frame_height :: nat
  frame_width :: nat
  frame_face_locations :: "nat \<Rightarrow> nat \<Rightarrow> string + face_location list"
  frame_face_encodings :: "nat \<Rightarrow> nat \<Rightarrow> face_location list \<Rightarrow> string + encoding list"

text \<open>\<^verbatim>\<open>int(x)\<close> of a float: truncation towards zero.\<close>

definition py_int :: "real \<Rightarrow> int" where
  "py_int x = (if 0 \<le> x then \<lfloor>x\<rfloor> else \<lceil>x\<rceil>)"

text \<open>
  The result is \<^verbatim>\<open>(face_locations, face_names, face_employee_ids, scale)\<close>. The locations are
  those found in the processed frame; \<^verbatim>\<open>scale\<close> is returned beside them. Every exception
  ends in \<^verbatim>\<open>[], [], [], scale\<close> with the scale assigned so far.
\<close>

definition recognize_faces ::
  "(encoding \<Rightarrow> encoding \<Rightarrow> real) \<Rightarrow> face_system \<Rightarrow> frame
     \<Rightarrow> face_location list \<times> string list \<times> string option list \<times> real" where
  "recognize_faces face_dist fs fr =
     (let height = frame_height fr; width = frame_width fr;
          scale = (if 1024 < width then 1024 / real width else 1);
          process_width = (if 1024 < width then 1024 else width);
          process_height = (if 1024 < width then nat (py_int (real height * scale)) else height)
      in (case frame_face_locations fr process_width process_height of
           Inl e \<Rightarrow> ([], [], [], scale)
         | Inr face_locations \<Rightarrow>
             if face_locations = [] then ([], [], [], scale)
             else (case frame_face_encodings fr process_width process_height face_locations of
               Inl e \<Rightarrow> ([], [], [], scale)
             | Inr face_encodings \<Rightarrow>
                 (case match_faces face_dist fs face_encodings of
                    Inl e \<Rightarrow> ([], [], [], scale)
                  | Inr ms \<Rightarrow> (face_locations, map fst ms, map snd ms, scale)))))"

subsection \<open>The overlay of \<^verbatim>\<open>gen_frames\<close> (lines 455--465)\<close>



section \<open>Example stores\<close>

definition row_in :: "string \<Rightarrow> date \<Rightarrow> datetime \<Rightarrow> attendance_row" where
  "row_in eid d t = new_attendance_row eid t d"

definition db_empty :: database where
  "db_empty = \<lparr>employees = [], attendance = []\<rparr>"

definition db_in :: database where
  "db_in = \<lparr>employees = [], attendance = [row_in ''E1'' 1 100]\<rparr>"

definition db_out :: database where
  "db_out = \<lparr>employees = [], attendance = [(row_in ''E1'' 1 100)\<lparr>check_out_time := Some 200\<rparr>]\<rparr>"

text \<open>A stand-in for the library's distance, for the examples.\<close>

definition toy_dist :: "encoding \<Rightarrow> encoding \<Rightarrow> real" where
  "toy_dist a b = \<bar>sum_list a - sum_list b\<bar>"

definition emp :: "string \<Rightarrow> string \<Rightarrow> encoding \<Rightarrow> employee" where
  "emp eid nm enc = \<lparr>employee_id = eid, name = nm, email = ''a@b'', department = ''d'',
     face_encoding = enc\<rparr>"

definition db_two :: database where
  "db_two = \<lparr>employees = [emp ''E1'' ''Ann'' [0], emp ''E2'' ''Bob'' [1]],
             attendance = [row_in ''E1'' 1 100, row_in ''E2'' 1 110, row_in ''E1'' 2 120]\<rparr>"

definition frame_one :: "nat \<Rightarrow> nat \<Rightarrow> face_location \<Rightarrow> encoding \<Rightarrow> frame" where
  "frame_one w h loc probe = \<lparr>frame_height = h, frame_width = w,
     frame_face_locations = (\<lambda>pw ph. Inr [loc]),
     frame_face_encodings = (\<lambda>pw ph locs. Inr [probe])\<rparr>"

definition image_two_faces :: image_file where
  "image_two_faces = \<lparr>path_exists = True, load_image_file = Inr 921600,
     image_face_locations = Inr [(10, 50, 50, 10), (10, 150, 50, 110)],
     image_face_encodings = Inr [[0], [1]]\<rparr>"

definition image_faces :: "face_location list \<Rightarrow> encoding list \<Rightarrow> image_file" where
  "image_faces locs encs = \<lparr>path_exists = True, load_image_file = Inr 921600,
     image_face_locations = Inr locs, image_face_encodings = Inr encs\<rparr>"




section \<open>The attendance ledger\<close>

lemma find_append_rows:
  "find P (xs @ ys) = (case find P xs of None \<Rightarrow> find P ys | Some x \<Rightarrow> Some x)"
  by (induction xs) auto

lemma existing_record_append_new:
  "existing_record db e d = None \<Longrightarrow>
   existing_record (db\<lparr>attendance := attendance db @ [new_attendance_row e t d]\<rparr>) e d
     = Some (new_attendance_row e t d)"
  by (simp add: existing_record_def find_append_rows new_attendance_row_def)

lemma find_update_check_out:
  "find (\<lambda>r. a_employee_id r = e \<and> a_date r = d) rows = Some r \<Longrightarrow>
   find (\<lambda>r. a_employee_id r = e \<and> a_date r = d) (update_check_out t e d rows)
     = Some (r\<lparr>check_out_time := Some t\<rparr>)"
  by (induction rows) (auto simp: update_check_out_def)

lemma existing_record_update:
  "existing_record db e d = Some r \<Longrightarrow>
   existing_record (db\<lparr>attendance := update_check_out t e d (attendance db)\<rparr>) e d
     = Some (r\<lparr>check_out_time := Some t\<rparr>)"
  by (simp add: existing_record_def find_update_check_out)

text \<open>
  C1. The ledger of every (identity, date) key follows NO_RECORD, CHECKED_IN, CHECKED_OUT:
  from NO_RECORD a check-in appends the record and succeeds, and a check-out is rejected
  with "Must check-in first" and leaves the store as it was; a check-in when a record
  exists is rejected with "Attendance already recorded for today"; from CHECKED_IN a
  check-out sets \<^verbatim>\<open>check_out_time\<close> and succeeds; from CHECKED_OUT every event, of any type,
  is rejected with "Attendance already recorded for today".
\<close>

theorem ledger_state_machine:
  "(ledger_state_of db e d = NO_RECORD \<longrightarrow>
      mark_attendance db e ''check_in'' d t =
        (db\<lparr>attendance := attendance db @ [new_attendance_row e t d]\<rparr>,
         \<lparr>success = True, message = ''Check-in recorded successfully''\<rparr>)
      \<and> ledger_state_of (fst (mark_attendance db e ''check_in'' d t)) e d = CHECKED_IN
      \<and> mark_attendance db e ''check_out'' d t =
        (db, \<lparr>success = False, message = ''Must check-in first''\<rparr>))
   \<and> (ledger_state_of db e d \<noteq> NO_RECORD \<longrightarrow>
      mark_attendance db e ''check_in'' d t =
        (db, \<lparr>success = False, message = ''Attendance already recorded for today''\<rparr>))
   \<and> (ledger_state_of db e d = CHECKED_IN \<longrightarrow>
      snd (mark_attendance db e ''check_out'' d t) =
        \<lparr>success = True, message = ''Check-out recorded successfully''\<rparr>
      \<and> map_option check_out_time
          (existing_record (fst (mark_attendance db e ''check_out'' d t)) e d) = Some (Some t)
      \<and> ledger_state_of (fst (mark_attendance db e ''check_out'' d t)) e d = CHECKED_OUT)
   \<and> (ledger_state_of db e d = CHECKED_OUT \<longrightarrow>
      mark_attendance db e ty d t =
        (db, \<lparr>success = False, message = ''Attendance already recorded for today''\<rparr>))"
proof (cases "existing_record db e d")
  case None
  then show ?thesis
    using existing_record_append_new [OF None, of t]
    by (simp add: ledger_state_of_def mark_attendance_def new_attendance_row_def)
next
  case (Some r)
  then show ?thesis
    using existing_record_update [OF Some, of t]
    by (simp add: ledger_state_of_def mark_attendance_def)
qed

theorem ledger_state_machine_witness:
  "ledger_state_of db_empty ''E1'' 1 = NO_RECORD
   \<and> mark_attendance db_empty ''E1'' ''check_in'' 1 100 =
       (db_in, \<lparr>success = True, message = ''Check-in recorded successfully''\<rparr>)
   \<and> mark_attendance db_empty ''E1'' ''check_out'' 1 100 =
       (db_empty, \<lparr>success = False, message = ''Must check-in first''\<rparr>)
   \<and> ledger_state_of db_in ''E1'' 1 = CHECKED_IN
   \<and> mark_attendance db_in ''E1'' ''check_in'' 1 200 =
       (db_in, \<lparr>success = False, message = ''Attendance already recorded for today''\<rparr>)
   \<and> snd (mark_attendance db_in ''E1'' ''check_out'' 1 200) =
       \<lparr>success = True, message = ''Check-out recorded successfully''\<rparr>
   \<and> ledger_state_of (fst (mark_attendance db_in ''E1'' ''check_out'' 1 200)) ''E1'' 1 = CHECKED_OUT
   \<and> ledger_state_of db_out ''E1'' 1 = CHECKED_OUT
   \<and> mark_attendance db_out ''E1'' ''check_out'' 1 300 =
       (db_out, \<lparr>success = False, message = ''Attendance already recorded for today''\<rparr>)"
proof -
  have s0: "ledger_state_of db_empty ''E1'' 1 = NO_RECORD"
    by (simp add: ledger_state_of_def existing_record_def db_empty_def)
  have s1: "ledger_state_of db_in ''E1'' 1 = CHECKED_IN"
    by (simp add: ledger_state_of_def existing_record_def db_in_def row_in_def
        new_attendance_row_def)
  have s2: "ledger_state_of db_out ''E1'' 1 = CHECKED_OUT"
    by (simp add: ledger_state_of_def existing_record_def db_out_def row_in_def
        new_attendance_row_def)
  have e: "db_empty\<lparr>attendance := attendance db_empty @ [new_attendance_row ''E1'' 100 1]\<rparr> = db_in"
    by (simp add: db_empty_def db_in_def row_in_def)
  show ?thesis
    using ledger_state_machine [of db_empty "''E1''" 1 100 "''check_out''"]
      ledger_state_machine [of db_in "''E1''" 1 200 "''check_out''"]
      ledger_state_machine [of db_out "''E1''" 1 300 "''check_out''"]
    by (simp add: s0 s1 s2 e)
qed

text \<open>
  A call with one key leaves the ledger state of every other key as it was.
\<close>

lemma find_update_check_out_other:
  "e' \<noteq> e \<or> d' \<noteq> d \<Longrightarrow>
   find (\<lambda>r. a_employee_id r = e' \<and> a_date r = d') (update_check_out t e d rows)
     = find (\<lambda>r. a_employee_id r = e' \<and> a_date r = d') rows"
  by (induction rows) (auto simp: update_check_out_def)

lemma mark_attendance_other_keys:
  "e' \<noteq> e \<or> d' \<noteq> d \<Longrightarrow>
   existing_record (fst (mark_attendance db e ty d t)) e' d' = existing_record db e' d'"
  using find_update_check_out_other [of e' e d' d t "attendance db"]
  by (auto simp: mark_attendance_def existing_record_def find_append_rows new_attendance_row_def
      split: option.splits)

section \<open>Event types other than check-in and check-out\<close>

text \<open>
  C10. For every identity and every attendance type other than \<^verbatim>\<open>'check_in'\<close> and
  \<^verbatim>\<open>'check_out'\<close>, \<^verbatim>\<open>mark_attendance\<close> (called directly or through the route) reports
  failure and returns the store as it was: no record is created and none is modified.
\<close>

theorem mark_attendance_other_type:
  "ty \<noteq> ''check_in'' \<Longrightarrow> ty \<noteq> ''check_out'' \<Longrightarrow>
     \<not> success (snd (mark_attendance db eid ty today now))
     \<and> fst (mark_attendance db eid ty today now) = db
     \<and> mark_attendance_route db eid (Some ty) today now = (db, snd (mark_attendance db eid ty today now))"
  by (auto simp: mark_attendance_def mark_attendance_route_def split: option.splits)

theorem mark_attendance_other_type_witness:
  "''lunch'' \<noteq> ''check_in'' \<and> ''lunch'' \<noteq> ''check_out''
   \<and> mark_attendance db_empty ''E1'' ''lunch'' 1 100 =
       (db_empty, \<lparr>success = False, message = ''Must check-in first''\<rparr>)
   \<and> mark_attendance db_in ''E1'' ''lunch'' 1 100 =
       (db_in, \<lparr>success = False, message = ''Attendance already recorded for today''\<rparr>)
   \<and> mark_attendance_route db_in ''E1'' (Some ''lunch'') 1 100 =
       (db_in, \<lparr>success = False, message = ''Attendance already recorded for today''\<rparr>)"
  using mark_attendance_other_type [of "''lunch''" db_empty "''E1''" 1 100]
    mark_attendance_other_type [of "''lunch''" db_in "''E1''" 1 100]
  by (simp add: mark_attendance_def mark_attendance_route_def existing_record_def db_empty_def
      db_in_def row_in_def new_attendance_row_def)

section \<open>Check-out and the order of times\<close>

text \<open>
  C5, as the specification states it, fails: with a record checked in at time 100, a
  check-out at time 50 of the same day is recorded with success and the record is changed.
\<close>

theorem check_out_before_check_in_counterexample:
  "existing_record db_in ''E1'' 1 = Some (row_in ''E1'' 1 100)
   \<and> check_in_time (row_in ''E1'' 1 100) = Some 100
   \<and> check_out_time (row_in ''E1'' 1 100) = None
   \<and> (50 :: datetime) < 100
   \<and> mark_attendance db_in ''E1'' ''check_out'' 1 50 =
       (db_in\<lparr>attendance := [(row_in ''E1'' 1 100)\<lparr>check_out_time := Some 50\<rparr>]\<rparr>,
        \<lparr>success = True, message = ''Check-out recorded successfully''\<rparr>)
   \<and> fst (mark_attendance db_in ''E1'' ''check_out'' 1 50) \<noteq> db_in"
  by (simp add: mark_attendance_def existing_record_def update_check_out_def db_in_def
      row_in_def new_attendance_row_def)

text \<open>
  C5, amended. For every (identity, date) record in the CHECKED_IN state, recording a
  check-out succeeds and sets \<^verbatim>\<open>check_out_time\<close> to the time of the call, whether that time
  is before, equal to or after the existing \<^verbatim>\<open>check_in_time\<close>, which is not read. No
  InvalidOrdering outcome exists: the message returned is always one of four.
\<close>

theorem check_out_any_time:
  "(existing_record db e d = Some r \<and> check_out_time r = None \<longrightarrow>
      snd (mark_attendance db e ''check_out'' d t) =
        \<lparr>success = True, message = ''Check-out recorded successfully''\<rparr>
      \<and> existing_record (fst (mark_attendance db e ''check_out'' d t)) e d =
        Some (r\<lparr>check_out_time := Some t\<rparr>))
   \<and> message (snd (mark_attendance db e ty d t)) \<in>
        {''Check-out recorded successfully'', ''Attendance already recorded for today'',
         ''Check-in recorded successfully'', ''Must check-in first''}"
  using existing_record_update [of db e d r t]
  by (auto simp: mark_attendance_def split: option.splits)

theorem check_out_any_time_witness:
  "existing_record db_in ''E1'' 1 = Some (row_in ''E1'' 1 100)
   \<and> check_out_time (row_in ''E1'' 1 100) = None
   \<and> check_in_time (row_in ''E1'' 1 100) = Some 100
   \<and> snd (mark_attendance db_in ''E1'' ''check_out'' 1 50) =
        \<lparr>success = True, message = ''Check-out recorded successfully''\<rparr>
   \<and> existing_record (fst (mark_attendance db_in ''E1'' ''check_out'' 1 50)) ''E1'' 1 =
        Some ((row_in ''E1'' 1 100)\<lparr>check_out_time := Some 50\<rparr>)"
proof -
  have h: "existing_record db_in ''E1'' 1 = Some (row_in ''E1'' 1 100)
           \<and> check_out_time (row_in ''E1'' 1 100) = None"
    by (simp add: existing_record_def db_in_def row_in_def new_attendance_row_def)
  show ?thesis
    using h check_out_any_time [of db_in "''E1''" 1 "row_in ''E1'' 1 100" 50 "''check_out''"]
    by (simp add: row_in_def new_attendance_row_def)
qed

section \<open>Referential integrity\<close>

text \<open>
  C6. Recording a check-in for an identity that is not enrolled appends an attendance row
  all the same: on the empty store, a check-in for \<^verbatim>\<open>GHOST\<close> succeeds and the store that
  results is no longer referentially intact.
\<close>

theorem mark_attendance_unenrolled_creates_record:
  "employees db_empty = []
   \<and> referential_integrity db_empty
   \<and> mark_attendance db_empty ''GHOST'' ''check_in'' 1 100 =
       (\<lparr>employees = [], attendance = [new_attendance_row ''GHOST'' 100 1]\<rparr>,
        \<lparr>success = True, message = ''Check-in recorded successfully''\<rparr>)
   \<and> \<not> referential_integrity (fst (mark_attendance db_empty ''GHOST'' ''check_in'' 1 100))"
  by (simp add: mark_attendance_def existing_record_def referential_integrity_def db_empty_def)

text \<open>
  The other operations keep a store referentially intact: removing an identity, enrolling
  one, and recording attendance for an identity that is enrolled.
\<close>

lemma referential_integrity_iff:
  "referential_integrity db \<longleftrightarrow>
     a_employee_id ` set (attendance db) \<subseteq> employee_id ` set (employees db)"
  by (auto simp: referential_integrity_def list_all_iff)

lemma delete_employee_preserves_integrity:
  assumes "referential_integrity (db_manager fs)"
  shows "referential_integrity (db_manager (fst (delete_employee fs eid)))"
  using assms
  by (auto simp: referential_integrity_iff delete_employee_def Let_def
      load_known_faces_def get_employee_encodings_def)

lemma add_new_employee_preserves_integrity:
  assumes "referential_integrity (db_manager fs)"
  shows "referential_integrity (db_manager (fst (add_new_employee fs eid nm mail dept img)))"
  using assms
  by (auto simp: referential_integrity_iff add_new_employee_def add_employee_def
      load_known_faces_def get_employee_encodings_def
      split: sum.splits list.splits if_splits)

lemma mark_attendance_enrolled_preserves_integrity:
  assumes "referential_integrity db" and "eid \<in> employee_id ` set (employees db)"
  shows "referential_integrity (fst (mark_attendance db eid ty today now))"
  using assms
  by (auto simp: referential_integrity_iff mark_attendance_def update_check_out_def
      new_attendance_row_def split: option.splits if_splits)

section \<open>Removing an identity\<close>

lemma db_manager_load_known_faces [simp]:
  "db_manager (load_known_faces fs) = db_manager fs"
  by (simp add: load_known_faces_def get_employee_encodings_def)

lemma known_employee_ids_load [simp]:
  "known_employee_ids (load_known_faces fs) = map employee_id (employees (db_manager fs))"
  by (simp add: load_known_faces_def get_employee_encodings_def)

lemma known_face_names_load [simp]:
  "known_face_names (load_known_faces fs) = map name (employees (db_manager fs))"
  by (simp add: load_known_faces_def get_employee_encodings_def)

lemma known_face_encodings_load [simp]:
  "known_face_encodings (load_known_faces fs) = map face_encoding (employees (db_manager fs))"
  by (simp add: load_known_faces_def get_employee_encodings_def)

lemma match_face_id_known:
  "match_face face_dist fs enc = Inr (nm, Some x) \<Longrightarrow> x \<in> set (known_employee_ids fs)"
  by (auto simp: match_face_def Let_def split: if_splits)

lemma match_faces_ids_known:
  "match_faces face_dist fs encs = Inr ms \<Longrightarrow> Some x \<in> set (map snd ms)
     \<Longrightarrow> x \<in> set (known_employee_ids fs)"
proof (induction encs arbitrary: ms)
  case Nil
  then show ?case by simp
next
  case (Cons enc encs)
  then show ?case
    by (force split: sum.splits dest: match_face_id_known)
qed

lemma recognize_faces_ids_known:
  "Some x \<in> set (fst (snd (snd (recognize_faces face_dist fs fr))))
     \<Longrightarrow> x \<in> set (known_employee_ids fs)"
  using match_faces_ids_known [of face_dist fs _ _ x]
  by (auto simp: recognize_faces_def Let_def split: sum.splits if_splits)

text \<open>
  C7. Removing an enrolled identity succeeds, deletes every attendance row of the identity
  and its employee row, and reloads the gallery from the store, so the identity is no
  longer among the known ids: afterwards no probe is matched to it, in no frame.
\<close>

theorem delete_employee_cascade:
  assumes "eid \<in> set (map employee_id (employees (db_manager fs)))"
  shows "snd (delete_employee fs eid) =
           (\<lparr>success = True, message = ''Employee deleted successfully.''\<rparr>, 200)
       \<and> filter (\<lambda>r. a_employee_id r = eid)
            (attendance (db_manager (fst (delete_employee fs eid)))) = []
       \<and> eid \<notin> set (map employee_id (employees (db_manager (fst (delete_employee fs eid)))))
       \<and> eid \<notin> set (known_employee_ids (fst (delete_employee fs eid)))
       \<and> match_face face_dist (fst (delete_employee fs eid)) probe \<noteq> Inr (nm, Some eid)
       \<and> Some eid \<notin> set (fst (snd (snd
            (recognize_faces face_dist (fst (delete_employee fs eid)) fr))))"
proof -
  from assms have pos: "0 < length (filter (\<lambda>e. employee_id e = eid) (employees (db_manager fs)))"
    by (auto simp: filter_empty_conv)
  have fs': "fst (delete_employee fs eid) =
      load_known_faces (fs\<lparr>db_manager := (db_manager fs)
        \<lparr>attendance := filter (\<lambda>r. a_employee_id r \<noteq> eid) (attendance (db_manager fs)),
         employees := filter (\<lambda>e. employee_id e \<noteq> eid) (employees (db_manager fs))\<rparr>\<rparr>)"
    using pos by (simp add: delete_employee_def Let_def)
  have out: "snd (delete_employee fs eid) =
           (\<lparr>success = True, message = ''Employee deleted successfully.''\<rparr>, 200)"
    using pos by (simp add: delete_employee_def Let_def)
  have ids: "eid \<notin> set (known_employee_ids (fst (delete_employee fs eid)))"
    by (auto simp: fs')
  have att: "filter (\<lambda>r. a_employee_id r = eid)
            (attendance (db_manager (fst (delete_employee fs eid)))) = []"
    by (auto simp: fs' filter_empty_conv)
  have emps: "eid \<notin> set (map employee_id (employees (db_manager (fst (delete_employee fs eid)))))"
    by (auto simp: fs')
  show ?thesis
    using out att emps ids match_face_id_known [of face_dist "fst (delete_employee fs eid)" probe nm eid]
      recognize_faces_ids_known [of eid face_dist "fst (delete_employee fs eid)" fr]
    by blast
qed

theorem delete_employee_cascade_witness:
  "''E1'' \<in> set (map employee_id (employees (db_manager (init_face_system db_two))))
   \<and> fst (snd (snd (recognize_faces toy_dist (init_face_system db_two)
        (frame_one 640 480 (10, 50, 50, 10) [1 / 5])))) = [Some ''E1'']
   \<and> snd (delete_employee (init_face_system db_two) ''E1'') =
        (\<lparr>success = True, message = ''Employee deleted successfully.''\<rparr>, 200)
   \<and> attendance (db_manager (fst (delete_employee (init_face_system db_two) ''E1'')))
        = [row_in ''E2'' 1 110]
   \<and> known_employee_ids (fst (delete_employee (init_face_system db_two) ''E1'')) = [''E2'']
   \<and> fst (snd (snd (recognize_faces toy_dist
        (fst (delete_employee (init_face_system db_two) ''E1''))
        (frame_one 640 480 (10, 50, 50, 10) [1 / 5])))) = [None]"
proof -
  have h: "''E1'' \<in> set (map employee_id (employees (db_manager (init_face_system db_two))))"
    by (simp add: init_face_system_def db_two_def emp_def)
  show ?thesis
    using h delete_employee_cascade [OF h, of toy_dist "[1 / 5]" "''Ann''"
        "frame_one 640 480 (10, 50, 50, 10) [1 / 5]"]
    by (simp add: delete_employee_def init_face_system_def db_two_def emp_def row_in_def
        new_attendance_row_def recognize_faces_def frame_one_def match_face_def
        compare_faces_def face_distance_def toy_dist_def np_argmin_def tolerance_def
        load_known_faces_def get_employee_encodings_def)
qed

section \<open>The matcher\<close>

lemma argmin_from_first_min:
  assumes "length pre = i" "best < i" "pre ! best = bv" "\<forall>j<i. bv \<le> pre ! j"
    "\<forall>j<best. bv < pre ! j"
  shows "argmin_from best bv i ds < length (pre @ ds)
       \<and> (\<forall>j<length (pre @ ds). (pre @ ds) ! argmin_from best bv i ds \<le> (pre @ ds) ! j)
       \<and> (\<forall>j<argmin_from best bv i ds.
             (pre @ ds) ! argmin_from best bv i ds < (pre @ ds) ! j)"
  using assms
proof (induction ds arbitrary: best bv i pre)
  case Nil
  then show ?case by simp
next
  case (Cons d ds)
  show ?case
  proof (cases "d < bv")
    case True
    have "argmin_from i d (Suc i) ds < length ((pre @ [d]) @ ds)
       \<and> (\<forall>j<length ((pre @ [d]) @ ds).
             ((pre @ [d]) @ ds) ! argmin_from i d (Suc i) ds \<le> ((pre @ [d]) @ ds) ! j)
       \<and> (\<forall>j<argmin_from i d (Suc i) ds.
             ((pre @ [d]) @ ds) ! argmin_from i d (Suc i) ds < ((pre @ [d]) @ ds) ! j)"
    proof (rule Cons.IH)
      show "length (pre @ [d]) = Suc i" using Cons.prems by simp
      show "i < Suc i" by simp
      show "(pre @ [d]) ! i = d" using Cons.prems by (simp add: nth_append)
      show "\<forall>j<Suc i. d \<le> (pre @ [d]) ! j"
        using Cons.prems True by (auto simp: nth_append less_Suc_eq intro: less_imp_le order_trans)
      show "\<forall>j<i. d < (pre @ [d]) ! j"
        using Cons.prems True by (auto simp: nth_append intro: less_le_trans)
    qed
    then show ?thesis using True by simp
  next
    case False
    have "argmin_from best bv (Suc i) ds < length ((pre @ [d]) @ ds)
       \<and> (\<forall>j<length ((pre @ [d]) @ ds).
             ((pre @ [d]) @ ds) ! argmin_from best bv (Suc i) ds \<le> ((pre @ [d]) @ ds) ! j)
       \<and> (\<forall>j<argmin_from best bv (Suc i) ds.
             ((pre @ [d]) @ ds) ! argmin_from best bv (Suc i) ds < ((pre @ [d]) @ ds) ! j)"
    proof (rule Cons.IH)
      show "length (pre @ [d]) = Suc i" using Cons.prems by simp
      show "best < Suc i" using Cons.prems by simp
      show "(pre @ [d]) ! best = bv" using Cons.prems by (simp add: nth_append)
      show "\<forall>j<Suc i. bv \<le> (pre @ [d]) ! j"
        using Cons.prems False by (auto simp: nth_append less_Suc_eq)
      show "\<forall>j<best. bv < (pre @ [d]) ! j"
        using Cons.prems by (auto simp: nth_append)
    qed
    then show ?thesis using False by simp
  qed
qed

lemma np_argmin_first_min:
  assumes "ds \<noteq> []"
  shows "np_argmin ds < length ds"
    and "\<forall>j<length ds. ds ! np_argmin ds \<le> ds ! j"
    and "\<forall>j<np_argmin ds. ds ! np_argmin ds < ds ! j"
proof -
  obtain d rest where ds: "ds = d # rest" using assms by (cases ds) auto
  have "argmin_from 0 d 1 rest < length ([d] @ rest)
       \<and> (\<forall>j<length ([d] @ rest). ([d] @ rest) ! argmin_from 0 d 1 rest \<le> ([d] @ rest) ! j)
       \<and> (\<forall>j<argmin_from 0 d 1 rest.
             ([d] @ rest) ! argmin_from 0 d 1 rest < ([d] @ rest) ! j)"
    by (rule argmin_from_first_min) auto
  then show "np_argmin ds < length ds"
    and "\<forall>j<length ds. ds ! np_argmin ds \<le> ds ! j"
    and "\<forall>j<np_argmin ds. ds ! np_argmin ds < ds ! j"
    by (simp_all add: ds np_argmin_def)
qed

lemma np_argmin_Min:
  assumes "ds \<noteq> []"
  shows "ds ! np_argmin ds = Min (set ds)"
proof (rule sym, rule Min_eqI)
  show "finite (set ds)" by simp
  show "ds ! np_argmin ds \<in> set ds"
    using np_argmin_first_min(1) [OF assms] by simp
  fix y assume "y \<in> set ds"
  then obtain j where "j < length ds" "ds ! j = y" by (auto simp: in_set_conv_nth)
  then show "ds ! np_argmin ds \<le> y"
    using np_argmin_first_min(2) [OF assms] by auto
qed


text \<open>
  C2. For a gallery whose three lists have one entry per identity, the matcher consults the
  single nearest neighbour (the first one among equals) and accepts it exactly when its
  distance is at most the tolerance 0.6: a distance equal to the tolerance is accepted, a
  larger one gives "Unknown" with no identity, and so does the empty gallery; the matcher
  returns a result in every case.
\<close>

theorem matcher_tolerance_boundary:
  assumes "length (known_face_names fs) = length (known_face_encodings fs)"
    and "length (known_employee_ids fs) = length (known_face_encodings fs)"
  shows "(known_face_encodings fs = [] \<longrightarrow>
            match_face face_dist fs probe = Inr (''Unknown'', None))
       \<and> (known_face_encodings fs \<noteq> [] \<longrightarrow>
            (let ds = face_distance face_dist (known_face_encodings fs) probe;
                 i = np_argmin ds
             in i < length (known_face_encodings fs)
                \<and> ds ! i = Min (set ds)
                \<and> (\<forall>j<i. ds ! i < ds ! j)
                \<and> match_face face_dist fs probe =
                    (if Min (set ds) \<le> 6 / 10
                     then Inr (known_face_names fs ! i, Some (known_employee_ids fs ! i))
                     else Inr (''Unknown'', None))))
       \<and> ((\<exists>nm x. match_face face_dist fs probe = Inr (nm, Some x)) \<longleftrightarrow>
            known_face_encodings fs \<noteq> []
            \<and> Min (set (face_distance face_dist (known_face_encodings fs) probe)) \<le> 6 / 10)
       \<and> (known_face_encodings fs \<noteq> []
            \<and> Min (set (face_distance face_dist (known_face_encodings fs) probe)) = 6 / 10
            \<longrightarrow> (\<exists>nm x. match_face face_dist fs probe = Inr (nm, Some x)))
       \<and> (0 < eps
            \<and> Min (set (face_distance face_dist (known_face_encodings fs) probe)) = 6 / 10 + eps
            \<longrightarrow> match_face face_dist fs probe = Inr (''Unknown'', None))"
proof (cases "known_face_encodings fs = []")
  case True
  then show ?thesis
    by (simp add: match_face_def face_distance_def)
next
  case False
  define ds where "ds = face_distance face_dist (known_face_encodings fs) probe"
  define i where "i = np_argmin ds"
  have len: "length ds = length (known_face_encodings fs)"
    by (simp add: ds_def face_distance_def)
  have ne: "ds \<noteq> []"
    using False len by auto
  have i_lt: "i < length ds"
    unfolding i_def by (rule np_argmin_first_min(1) [OF ne])
  have i_min: "ds ! i = Min (set ds)"
    unfolding i_def by (rule np_argmin_Min [OF ne])
  have i_first: "\<forall>j<i. ds ! i < ds ! j"
    unfolding i_def by (rule np_argmin_first_min(3) [OF ne])
  have cmp: "compare_faces face_dist (known_face_encodings fs) probe tolerance ! i
               = (ds ! i \<le> 6 / 10)"
    using i_lt by (simp add: compare_faces_def ds_def [symmetric] tolerance_def)
  have m: "match_face face_dist fs probe =
             (if Min (set ds) \<le> 6 / 10
              then Inr (known_face_names fs ! i, Some (known_employee_ids fs ! i))
              else Inr (''Unknown'', None))"
    using False ne i_lt len assms cmp
    by (simp add: match_face_def Let_def ds_def [symmetric] i_def [symmetric] i_min)
  show ?thesis
    using False i_lt len i_min i_first m
    by (auto simp: Let_def ds_def [symmetric] i_def [symmetric])
qed

theorem matcher_tolerance_boundary_witness:
  "length (known_face_names (init_face_system db_two))
     = length (known_face_encodings (init_face_system db_two))
   \<and> length (known_employee_ids (init_face_system db_two))
     = length (known_face_encodings (init_face_system db_two))
   \<and> face_distance toy_dist (known_face_encodings (init_face_system db_two)) [- 6 / 10]
     = [6 / 10, 16 / 10]
   \<and> match_face toy_dist (init_face_system db_two) [- 6 / 10] = Inr (''Ann'', Some ''E1'')
   \<and> face_distance toy_dist (known_face_encodings (init_face_system db_two)) [- 61 / 100]
     = [61 / 100, 161 / 100]
   \<and> match_face toy_dist (init_face_system db_two) [- 61 / 100] = Inr (''Unknown'', None)
   \<and> known_face_encodings (init_face_system db_empty) = []
   \<and> match_face toy_dist (init_face_system db_empty) [0] = Inr (''Unknown'', None)"
proof -
  have l: "length (known_face_names (init_face_system db_two))
             = length (known_face_encodings (init_face_system db_two))"
    "length (known_employee_ids (init_face_system db_two))
             = length (known_face_encodings (init_face_system db_two))"
    "length (known_face_names (init_face_system db_empty))
             = length (known_face_encodings (init_face_system db_empty))"
    "length (known_employee_ids (init_face_system db_empty))
             = length (known_face_encodings (init_face_system db_empty))"
    by (simp_all add: init_face_system_def load_known_faces_def get_employee_encodings_def)
  have k: "known_face_encodings (init_face_system db_two) = [[0], [1]]"
    "known_face_names (init_face_system db_two) = [''Ann'', ''Bob'']"
    "known_employee_ids (init_face_system db_two) = [''E1'', ''E2'']"
    "known_face_encodings (init_face_system db_empty) = []"
    by (simp_all add: init_face_system_def load_known_faces_def get_employee_encodings_def
        db_two_def db_empty_def emp_def)
  show ?thesis
    using matcher_tolerance_boundary [OF l(1) l(2), of toy_dist "[- 6 / 10]" "1 / 100"]
      matcher_tolerance_boundary [OF l(1) l(2), of toy_dist "[- 61 / 100]" "1 / 100"]
      matcher_tolerance_boundary [OF l(3) l(4), of toy_dist "[0]" "1 / 100"]
    by (simp add: k match_face_def compare_faces_def face_distance_def toy_dist_def
        np_argmin_def tolerance_def)
qed

section \<open>Enrollment\<close>

text \<open>
  C8. \<^verbatim>\<open>add_new_employee\<close> checks in order and stops at the first failure: the image
  decodes; exactly one face is located (none: "No face detected", more than one: "Multiple
  faces detected"); the id is not present yet. Whatever a later check would say, the first
  failing one decides the message, and every failure leaves the system as it was: an image
  with two faces is answered "Multiple faces detected" and no employee is added.
\<close>

theorem enrollment_precondition_order:
  "(\<not> path_exists img \<longrightarrow>
      add_new_employee fs eid nm mail dept img = (fs, failure ''Image file not found''))
   \<and> (path_exists img \<and> load_image_file img = Inl e \<longrightarrow>
      add_new_employee fs eid nm mail dept img = (fs, error_processing e))
   \<and> (path_exists img \<and> load_image_file img = Inr 0 \<longrightarrow>
      add_new_employee fs eid nm mail dept img = (fs, failure ''Invalid or corrupt image file''))
   \<and> (decodes img \<and> image_face_locations img = Inr [] \<longrightarrow>
      add_new_employee fs eid nm mail dept img =
        (fs, failure ''No face detected in the image. Please use a clear front-facing photo''))
   \<and> (decodes img \<and> image_face_locations img = Inr locs \<and> 1 < length locs \<longrightarrow>
      add_new_employee fs eid nm mail dept img =
        (fs, failure ''Multiple faces detected. Please use an image with only one face''))
   \<and> (decodes img \<and> image_face_locations img = Inr [loc]
        \<and> image_face_encodings img = Inr (enc # encs)
        \<and> eid \<in> set (map employee_id (employees (db_manager fs))) \<longrightarrow>
      add_new_employee fs eid nm mail dept img = (fs, failure ''Employee ID already exists''))
   \<and> (decodes img \<and> image_face_locations img = Inr [loc]
        \<and> image_face_encodings img = Inr (enc # encs)
        \<and> eid \<notin> set (map employee_id (employees (db_manager fs))) \<longrightarrow>
      snd (add_new_employee fs eid nm mail dept img) =
        \<lparr>success = True, message = ''Employee added successfully''\<rparr>
      \<and> employees (db_manager (fst (add_new_employee fs eid nm mail dept img))) =
        employees (db_manager fs) @
          [\<lparr>employee_id = eid, name = nm, email = mail, department = dept, face_encoding = enc\<rparr>]
      \<and> known_employee_ids (fst (add_new_employee fs eid nm mail dept img)) =
        map employee_id (employees (db_manager fs)) @ [eid])
   \<and> (\<not> success (snd (add_new_employee fs eid nm mail dept img)) \<longrightarrow>
      fst (add_new_employee fs eid nm mail dept img) = fs)"
  by (auto simp: add_new_employee_def decodes_def add_employee_def failure_def
      error_processing_def load_known_faces_def get_employee_encodings_def
      split: sum.splits list.splits if_splits)


theorem enrollment_precondition_order_witness:
  "decodes image_two_faces
   \<and> image_face_locations image_two_faces = Inr [(10, 50, 50, 10), (10, 150, 50, 110)]
   \<and> ''E1'' \<in> set (map employee_id (employees (db_manager (init_face_system db_two))))
   \<and> add_new_employee (init_face_system db_two) ''E1'' ''Ann'' ''a@b'' ''d'' image_two_faces =
       (init_face_system db_two,
        failure ''Multiple faces detected. Please use an image with only one face'')
   \<and> add_new_employee (init_face_system db_two) ''E3'' ''Cyd'' ''c@d'' ''d'' image_two_faces =
       (init_face_system db_two,
        failure ''Multiple faces detected. Please use an image with only one face'')
   \<and> add_new_employee (init_face_system db_two) ''E1'' ''Ann'' ''a@b'' ''d'' (image_faces [] []) =
       (init_face_system db_two,
        failure ''No face detected in the image. Please use a clear front-facing photo'')
   \<and> add_new_employee (init_face_system db_two) ''E1'' ''Ann'' ''a@b'' ''d''
         (image_faces [(10, 50, 50, 10)] [[2]]) =
       (init_face_system db_two, failure ''Employee ID already exists'')
   \<and> snd (add_new_employee (init_face_system db_two) ''E3'' ''Cyd'' ''c@d'' ''d''
         (image_faces [(10, 50, 50, 10)] [[2]])) =
       \<lparr>success = True, message = ''Employee added successfully''\<rparr>
   \<and> known_employee_ids (fst (add_new_employee (init_face_system db_two) ''E3'' ''Cyd''
         ''c@d'' ''d'' (image_faces [(10, 50, 50, 10)] [[2]]))) = [''E1'', ''E2'', ''E3'']
   \<and> \<not> path_exists (image_two_faces\<lparr>path_exists := False\<rparr>)
   \<and> add_new_employee (init_face_system db_two) ''E1'' ''Ann'' ''a@b'' ''d''
        (image_two_faces\<lparr>path_exists := False\<rparr>) =
       (init_face_system db_two, failure ''Image file not found'')
   \<and> add_new_employee (init_face_system db_two) ''E1'' ''Ann'' ''a@b'' ''d''
        (image_two_faces\<lparr>load_image_file := Inl ''cannot identify image file''\<rparr>) =
       (init_face_system db_two, error_processing ''cannot identify image file'')
   \<and> add_new_employee (init_face_system db_two) ''E1'' ''Ann'' ''a@b'' ''d''
        (image_two_faces\<lparr>load_image_file := Inr 0\<rparr>) =
       (init_face_system db_two, failure ''Invalid or corrupt image file'')"
proof -
  note u1 = enrollment_precondition_order [of "image_two_faces\<lparr>path_exists := False\<rparr>"
      "init_face_system db_two"
      "''E1''" "''Ann''" "''a@b''" "''d''" "''x''" "[]" "(10, 50, 50, 10)" "[2]" "[]"]
  note u2 = enrollment_precondition_order
      [of "image_two_faces\<lparr>load_image_file := Inl ''cannot identify image file''\<rparr>"
      "init_face_system db_two"
      "''E1''" "''Ann''" "''a@b''" "''d''" "''cannot identify image file''" "[]"
      "(10, 50, 50, 10)" "[2]" "[]"]
  note u3 = enrollment_precondition_order [of "image_two_faces\<lparr>load_image_file := Inr 0\<rparr>"
      "init_face_system db_two"
      "''E1''" "''Ann''" "''a@b''" "''d''" "''x''" "[]" "(10, 50, 50, 10)" "[2]" "[]"]
  have p: "path_exists image_two_faces" by (simp add: image_two_faces_def)
  have d: "decodes image_two_faces" "decodes (image_faces locs encs)" for locs encs
    by (simp_all add: decodes_def image_two_faces_def image_faces_def)
  have l: "image_face_locations image_two_faces = Inr [(10, 50, 50, 10), (10, 150, 50, 110)]"
    "image_face_locations (image_faces locs encs) = Inr locs"
    "image_face_encodings (image_faces locs encs) = Inr encs" for locs encs
    by (simp_all add: image_two_faces_def image_faces_def)
  have k: "map employee_id (employees (db_manager (init_face_system db_two))) = [''E1'', ''E2'']"
    by (simp add: init_face_system_def db_two_def emp_def)
  note t1 = enrollment_precondition_order [of image_two_faces "init_face_system db_two"
      "''E1''" "''Ann''" "''a@b''" "''d''" "''x''" "[(10, 50, 50, 10), (10, 150, 50, 110)]"
      "(10, 50, 50, 10)" "[2]" "[]"]
  note t2 = enrollment_precondition_order [of image_two_faces "init_face_system db_two"
      "''E3''" "''Cyd''" "''c@d''" "''d''" "''x''" "[(10, 50, 50, 10), (10, 150, 50, 110)]"
      "(10, 50, 50, 10)" "[2]" "[]"]
  note t3 = enrollment_precondition_order [of "image_faces [] []" "init_face_system db_two"
      "''E1''" "''Ann''" "''a@b''" "''d''" "''x''" "[]" "(10, 50, 50, 10)" "[2]" "[]"]
  note t4 = enrollment_precondition_order [of "image_faces [(10, 50, 50, 10)] [[2]]"
      "init_face_system db_two"
      "''E1''" "''Ann''" "''a@b''" "''d''" "''x''" "[]" "(10, 50, 50, 10)" "[2]" "[]"]
  note t5 = enrollment_precondition_order [of "image_faces [(10, 50, 50, 10)] [[2]]"
      "init_face_system db_two"
      "''E3''" "''Cyd''" "''c@d''" "''d''" "''x''" "[]" "(10, 50, 50, 10)" "[2]" "[]"]
  show ?thesis
    using t1 t2 t3 t4 t5 u1 u2 u3 by (simp add: d l k p)
qed

section \<open>Coordinates of the overlay\<close>








section \<open>The average of the summary\<close>







end
